theory Spec2Isabelle
  imports Main "HOL-Library.Word" "HOL-Library.AList"
begin

unbundle bit_operations_syntax

section \<open>Go strings and the library functions the handlers call\<close>

text \<open>
  A Go string is a sequence of bytes and \<open>len\<close> counts bytes, so a Go string is a
  \<^typ>\<open>string\<close> here and \<open>len\<close> is \<^const>\<open>length\<close>. A run-time panic and an
  error return are values of their own.
\<close>

datatype go_panic = SliceBoundsOutOfRange

datatype go_error =
    ErrSyntax | ErrRange | ErrEscape
  | ErrInvalidRangeHeader | ErrInvalidRangeFormat
  | ErrRecordNotFound | ErrDatabase | ErrCreateMagnet
  | ErrTorrentNotFound | ErrTorrentNotReady | ErrNoFiles | ErrFileNotFound
  | ErrEngine string

definition HasPrefix :: "string \<Rightarrow> string \<Rightarrow> bool" where
  "HasPrefix s p = (take (length p) s = p)"

definition TrimPrefix :: "string \<Rightarrow> string \<Rightarrow> string" where
  "TrimPrefix s p = (if HasPrefix s p then drop (length p) s else s)"

text \<open>\<open>strings.Split\<close> with a separator of one byte: the empty string gives one empty part.\<close>

fun Split :: "string \<Rightarrow> char \<Rightarrow> string list" where
  "Split [] sep = [[]]"
| "Split (c # cs) sep =
     (if c = sep then [] # Split cs sep
      else (case Split cs sep of [] \<Rightarrow> [[c]] | p # ps \<Rightarrow> (c # p) # ps))"

fun Join :: "string list \<Rightarrow> string \<Rightarrow> string" where
  "Join [] sep = []"
| "Join [x] sep = x"
| "Join (x # y # ys) sep = x @ sep @ Join (y # ys) sep"

text \<open>\<open>strings.LastIndex\<close> for a one-byte needle: the last position, or -1.\<close>

definition LastIndex :: "string \<Rightarrow> char \<Rightarrow> int" where
  "LastIndex s c =
     (if c \<in> set s then int (length s) - 1 - int (length (takeWhile (\<lambda>x. x \<noteq> c) (rev s)))
      else - 1)"

text \<open>The slice expression \<open>s[i:]\<close>: Go panics when \<open>i\<close> is negative or beyond \<open>len(s)\<close>.\<close>

definition slice_from :: "string \<Rightarrow> int \<Rightarrow> go_panic + string" where
  "slice_from s i =
     (if i < 0 \<or> int (length s) < i then Inl SliceBoundsOutOfRange else Inr (drop (nat i) s))"

text \<open>
  \<open>strings.ToLower\<close> on a string of ASCII bytes: the letters A to Z go to a to z and
  every other byte is kept. On a string with a byte from 128 on, Go decodes runes and
  maps them through the Unicode tables, which are not modelled: there this function is
  not Go's, and a statement that depends on the lower-cased text says that its text is
  ASCII.
\<close>

definition lower_byte :: "char \<Rightarrow> char" where
  "lower_byte c =
     (case map_of (zip ''ABCDEFGHIJKLMNOPQRSTUVWXYZ'' ''abcdefghijklmnopqrstuvwxyz'') c of
        None \<Rightarrow> c | Some l \<Rightarrow> l)"

definition ToLower :: "string \<Rightarrow> string" where
  "ToLower s = map lower_byte s"

text \<open>
  \<open>path.Ext\<close> scans from the last byte towards the first, stops at a slash, and returns
  the suffix starting at the first dot it meets.
\<close>

fun ext_scan :: "string \<Rightarrow> string \<Rightarrow> string" where
  "ext_scan [] acc = []"
| "ext_scan (c # cs) acc =
     (if c = CHR ''/'' then []
      else if c = CHR ''.'' then c # acc
      else ext_scan cs (c # acc))"

definition Ext :: "string \<Rightarrow> string" where
  "Ext p = ext_scan (rev p) []"

text \<open>\<open>path.Base\<close>: the last element of the path, after trailing slashes are removed.\<close>

definition Base :: "string \<Rightarrow> string" where
  "Base p =
     (if p = [] then ''.''
      else let q = rev (dropWhile (\<lambda>c. c = CHR ''/'') (rev p));
               r = rev (takeWhile (\<lambda>c. c \<noteq> CHR ''/'') (rev q))
           in if r = [] then ''/'' else r)"

subsection \<open>Numbers as text\<close>

fun dec_nat :: "nat \<Rightarrow> string" where
  "dec_nat n =
     (if n < 10 then [''0123456789'' ! n]
      else dec_nat (n div 10) @ [''0123456789'' ! (n mod 10)])"

declare dec_nat.simps [simp del]

text \<open>\<open>strconv.FormatInt(i, 10)\<close>, also what \<open>%d\<close> prints for an integer.\<close>

definition FormatInt :: "int \<Rightarrow> string" where
  "FormatInt i = (if i < 0 then CHR ''-'' # dec_nat (nat (- i)) else dec_nat (nat i))"

text \<open>What \<open>%x\<close> prints for a number that is not negative.\<close>

fun hex_nat :: "nat \<Rightarrow> string" where
  "hex_nat n =
     (if n < 16 then [''0123456789abcdef'' ! n]
      else hex_nat (n div 16) @ [''0123456789abcdef'' ! (n mod 16)])"

declare hex_nat.simps [simp del]

definition digit_val :: "char \<Rightarrow> int option" where
  "digit_val c = map_of (zip ''0123456789'' [0, 1, 2, 3, 4, 5, 6, 7, 8, 9]) c"

text \<open>
  \<open>strconv.ParseUint(s, 10, 64)\<close> reads the digits from left to right; a byte that is no
  digit is a syntax error, a value beyond 64 bits a range error.
\<close>

fun parse_digits :: "int \<Rightarrow> string \<Rightarrow> go_error + int" where
  "parse_digits acc [] = Inr acc"
| "parse_digits acc (c # cs) =
     (case digit_val c of
        None \<Rightarrow> Inl ErrSyntax
      | Some d \<Rightarrow>
          (if 2 ^ 64 \<le> acc * 10 + d then Inl ErrRange else parse_digits (acc * 10 + d) cs))"

definition ParseUint :: "string \<Rightarrow> go_error + int" where
  "ParseUint s = (if s = [] then Inl ErrSyntax else parse_digits 0 s)"

text \<open>\<open>strconv.ParseInt(s, 10, 64)\<close>: an optional sign, then \<open>ParseUint\<close>, then the range of int64.\<close>

definition ParseInt :: "string \<Rightarrow> go_error + int" where
  "ParseInt s =
     (case s of
        [] \<Rightarrow> Inl ErrSyntax
      | c # cs \<Rightarrow>
          (let neg = (c = CHR ''-'');
               body = (if c = CHR ''+'' \<or> c = CHR ''-'' then cs else s)
           in case ParseUint body of
                Inl e \<Rightarrow> Inl e
              | Inr un \<Rightarrow>
                  if \<not> neg \<and> 2 ^ 63 \<le> un then Inl ErrRange
                  else if neg \<and> 2 ^ 63 < un then Inl ErrRange
                  else Inr (if neg then - un else un)))"

subsection \<open>Percent decoding\<close>

definition unhex :: "char \<Rightarrow> nat option" where
  "unhex c =
     map_of (zip ''0123456789abcdefABCDEF''
                 [0, 1, 2, 3, 4, 5, 6, 7, 8, 9, 10, 11, 12, 13, 14, 15, 10, 11, 12, 13, 14, 15]) c"

text \<open>
  \<open>url.PathUnescape\<close>: a percent sign must be followed by two hexadecimal digits, which
  become one byte; every other byte, a plus sign too, is kept.
\<close>

fun PathUnescape :: "string \<Rightarrow> go_error + string" where
  "PathUnescape [] = Inr []"
| "PathUnescape (c # cs) =
     (if c = CHR ''%'' then
        (case cs of
           h # l # rest \<Rightarrow>
             (case (unhex h, unhex l) of
                (Some a, Some b) \<Rightarrow>
                  (case PathUnescape rest of
                     Inl e \<Rightarrow> Inl e
                   | Inr t \<Rightarrow> Inr (char_of (16 * a + b) # t))
              | _ \<Rightarrow> Inl ErrEscape)
         | _ \<Rightarrow> Inl ErrEscape)
      else (case PathUnescape cs of Inl e \<Rightarrow> Inl e | Inr t \<Rightarrow> Inr (c # t)))"

section \<open>Media types and the cache validator (package handlers)\<close>

definition handler_mimeTypes :: "(string \<times> string) list" where
  "handler_mimeTypes =
     [(''.mp4'', ''video/mp4''),
      (''.mkv'', ''video/x-matroska''),
      (''.avi'', ''video/x-msvideo''),
      (''.mov'', ''video/quicktime''),
      (''.webm'', ''video/webm''),
      (''.jpg'', ''image/jpeg''),
      (''.png'', ''image/png''),
      (''.srt'', ''text/plain; charset=utf-8''),
      (''.ass'', ''text/plain; charset=utf-8''),
      (''.ssa'', ''text/plain; charset=utf-8'')]"

text \<open>
  \<open>getMimeType\<close> of the handlers slices the name at \<open>strings.LastIndex(filename, ".")\<close>
  with no check of the index.
\<close>

definition getMimeType :: "string \<Rightarrow> go_panic + string" where
  "getMimeType filename =
     (case slice_from filename (LastIndex filename CHR ''.'') of
        Inl p \<Rightarrow> Inl p
      | Inr suffix \<Rightarrow>
          (case map_of handler_mimeTypes (ToLower suffix) of
             Some mime \<Rightarrow> Inr mime
           | None \<Rightarrow> Inr ''application/octet-stream''))"

definition videoExtensions :: "string list" where
  "videoExtensions =
     [''.mp4'', ''.mkv'', ''.avi'', ''.mov'', ''.webm'', ''.flv'', ''.wmv'', ''.m4v'', ''.3gp'']"

definition isVideoFile :: "string \<Rightarrow> go_panic + bool" where
  "isVideoFile filePath =
     (case slice_from filePath (LastIndex filePath CHR ''.'') of
        Inl p \<Rightarrow> Inl p
      | Inr suffix \<Rightarrow> Inr (ToLower suffix \<in> set videoExtensions))"

text \<open>
  \<open>generateETag\<close> formats the key \<open>path-start-end\<close> and prints the length of the key in
  hexadecimal between double quotes.
\<close>

definition etag_key :: "string \<Rightarrow> int \<Rightarrow> int \<Rightarrow> string" where
  "etag_key filePath start end = filePath @ ''-'' @ FormatInt start @ ''-'' @ FormatInt end"

definition generateETag :: "string \<Rightarrow> int \<Rightarrow> int \<Rightarrow> string" where
  "generateETag filePath start end =
     [CHR 0x22] @ hex_nat (length (etag_key filePath start end)) @ [CHR 0x22]"

section \<open>The catalog (package models) and the persistence engine\<close>

record Magnet =
  m_ID :: string
  m_MagnetURI :: string
  m_Name :: string
  m_TotalSize :: int
  m_FileCount :: int
  m_Status :: string
  m_CreatedAt :: nat
  m_UpdatedAt :: nat
  m_LastAccessed :: nat
  m_AccessCount :: int

record File =
  f_ID :: nat
  f_MagnetID :: string
  f_FilePath :: string
  f_FileName :: string
  f_FileSize :: int
  f_FileIndex :: int
  f_MimeType :: string
  f_CreatedAt :: nat
  f_UpdatedAt :: nat

text \<open>
  The store behind gorm: two tables in insertion order and the counter of the
  auto-increment key of \<open>files\<close>. When \<open>db_up\<close> is false every query returns an error and
  changes nothing, which is how the error branches of the callers are reached.
  The clock is a parameter \<open>now\<close> of each operation.
\<close>

record database =
  db_up :: bool
  magnets :: "Magnet list"
  files :: "File list"
  next_file_id :: nat



text \<open>\<open>db.Model(&Magnet{}).Where("id = ?", id).Updates(...)\<close>\<close>

definition db_update_magnet :: "string \<Rightarrow> (Magnet \<Rightarrow> Magnet) \<Rightarrow> database \<Rightarrow> go_error + database" where
  "db_update_magnet ident upd d =
     (if \<not> db_up d then Inl ErrDatabase
      else Inr (d\<lparr>magnets := map (\<lambda>m. if m_ID m = ident then upd m else m) (magnets d)\<rparr>))"

text \<open>\<open>db.Where("magnet_id = ?", id).Find(&files)\<close>\<close>

definition db_find_files :: "database \<Rightarrow> string \<Rightarrow> go_error + File list" where
  "db_find_files d ident =
     (if \<not> db_up d then Inl ErrDatabase
      else Inr (filter (\<lambda>f. f_MagnetID f = ident) (files d)))"

text \<open>
  \<open>db.Create(&filesToCreate)\<close>: one insert of all rows; each gets the next key, and
  \<open>UpdatedAt\<close> (zero in the struct, \<open>autoUpdateTime\<close>) is filled.
\<close>

definition db_create_files :: "nat \<Rightarrow> File list \<Rightarrow> database \<Rightarrow> go_error + database" where
  "db_create_files now fs d =
     (if \<not> db_up d then Inl ErrDatabase
      else Inr (d\<lparr>files := files d @
                    map (\<lambda>(k, f). f\<lparr>f_ID := next_file_id d + k, f_UpdatedAt := now\<rparr>)
                        (enumerate 0 fs),
                  next_file_id := next_file_id d + length fs\<rparr>))"

text \<open>
  \<open>db.Save(&file)\<close>: a row with key 0 is created; otherwise every field of the row with
  this key is written, and the row is inserted when no row has the key.
\<close>

definition db_save_file :: "nat \<Rightarrow> File \<Rightarrow> database \<Rightarrow> go_error + database" where
  "db_save_file now f d =
     (if \<not> db_up d then Inl ErrDatabase
      else (let f' = f\<lparr>f_UpdatedAt := now\<rparr>
            in if f_ID f = 0
               then Inr (d\<lparr>files := files d @ [f'\<lparr>f_ID := next_file_id d\<rparr>],
                           next_file_id := Suc (next_file_id d)\<rparr>)
               else if f_ID f \<in> set (map f_ID (files d))
               then Inr (d\<lparr>files := map (\<lambda>g. if f_ID g = f_ID f then f' else g) (files d)\<rparr>)
               else Inr (d\<lparr>files := files d @ [f'],
                           next_file_id := max (next_file_id d) (Suc (f_ID f))\<rparr>)))"

text \<open>\<open>db.Where("id IN ?", ids).Delete(&File{})\<close>\<close>

definition db_delete_files_by_id :: "nat list \<Rightarrow> database \<Rightarrow> go_error + database" where
  "db_delete_files_by_id ids d =
     (if \<not> db_up d then Inl ErrDatabase
      else Inr (d\<lparr>files := filter (\<lambda>f. f_ID f \<notin> set ids) (files d)\<rparr>))"

text \<open>\<open>db.Where("magnet_id = ?", id).Delete(&File{})\<close>\<close>

definition db_delete_files_of :: "string \<Rightarrow> database \<Rightarrow> go_error + database" where
  "db_delete_files_of ident d =
     (if \<not> db_up d then Inl ErrDatabase
      else Inr (d\<lparr>files := filter (\<lambda>f. f_MagnetID f \<noteq> ident) (files d)\<rparr>))"

text \<open>\<open>db.Where("id = ?", id).Delete(&Magnet{})\<close>\<close>

definition db_delete_magnet :: "string \<Rightarrow> database \<Rightarrow> go_error + database" where
  "db_delete_magnet ident d =
     (if \<not> db_up d then Inl ErrDatabase
      else Inr (d\<lparr>magnets := filter (\<lambda>m. m_ID m \<noteq> ident) (magnets d)\<rparr>))"

text \<open>A call whose error the caller drops.\<close>

definition ignore_error :: "go_error + database \<Rightarrow> database \<Rightarrow> database" where
  "ignore_error r d = (case r of Inl e \<Rightarrow> d | Inr d' \<Rightarrow> d')"

section \<open>The swarm engine as the service sees it\<close>

text \<open>
  A session is a handle. The metadata the engine holds for a handle is \<open>torr.Info()\<close>:
  absent until the swarm has delivered it. A file of the metadata has its path, its
  length and the bytes its reader delivers.
\<close>

record tfile =
  tf_path :: string
  tf_length :: int
  tf_data :: string

record tinfo =
  ti_name :: string
  ti_length :: int
  ti_files :: "tfile list"

type_synonym handle = nat

text \<open>The goroutines a call starts with \<open>go\<close> are returned as tasks.\<close>

datatype task = AddTorrentTask string string | AccessStatsTask string

record TorrentService =
  db :: database
  activeTorrents :: "(string \<times> handle) list"
  engine :: "(handle \<times> tinfo) list"
  dropped :: "handle list"
  cancelled :: bool
  client_closed :: bool

section \<open>The torrent service (package services)\<close>

subsection \<open>The identifier of a magnet link\<close>













subsection \<open>Submission\<close>


definition updateMagnetStatus ::
  "nat \<Rightarrow> string \<Rightarrow> string \<Rightarrow> string \<Rightarrow> TorrentService \<Rightarrow> TorrentService" where
  "updateMagnetStatus now infoHash status errorMsg s =
     s\<lparr>db := ignore_error
                (db_update_magnet infoHash
                   (\<lambda>m. if errorMsg \<noteq> []
                         then m\<lparr>m_Status := status, m_UpdatedAt := now, m_Name := errorMsg\<rparr>
                         else m\<lparr>m_Status := status, m_UpdatedAt := now\<rparr>)
                   (db s))
                (db s)\<rparr>"

definition updateAccessStats :: "nat \<Rightarrow> string \<Rightarrow> TorrentService \<Rightarrow> TorrentService" where
  "updateAccessStats now infoHash s =
     s\<lparr>db := ignore_error
                (db_update_magnet infoHash
                   (\<lambda>m. m\<lparr>m_AccessCount := m_AccessCount m + 1, m_LastAccessed := now\<rparr>)
                   (db s))
                (db s)\<rparr>"

subsection \<open>The metadata synchronizer\<close>

definition service_mimeTypes :: "(string \<times> string) list" where
  "service_mimeTypes =
     [(''.mp4'', ''video/mp4''),
      (''.mkv'', ''video/x-matroska''),
      (''.avi'', ''video/x-msvideo''),
      (''.mov'', ''video/quicktime''),
      (''.webm'', ''video/webm''),
      (''.jpg'', ''image/jpeg''),
      (''.png'', ''image/png''),
      (''.srt'', ''text/plain''),
      (''.ass'', ''text/plain'')]"

text \<open>\<open>getMimeType\<close> of the service goes through \<open>path.Ext\<close>.\<close>

definition service_getMimeType :: "string \<Rightarrow> string" where
  "service_getMimeType filename =
     (case map_of service_mimeTypes (ToLower (Ext filename)) of
        Some mime \<Rightarrow> mime
      | None \<Rightarrow> ''application/octet-stream'')"

text \<open>
  The state of the walk over \<open>torr.Files()\<close>: \<open>existingFileMap\<close> (a Go map, here the
  list of its entries), the keys of \<open>seenFiles\<close>, \<open>filesToCreate\<close> and \<open>filesToUpdate\<close>.
\<close>

record walk_state =
  existingFileMap :: "(string \<times> File) list"
  seenFiles :: "string list"
  filesToCreate :: "File list"
  filesToUpdate :: "File list"

text \<open>
  What a turn of the loop computes for the reported file at position \<open>i\<close>: the row to
  create, whether the persisted row differs, and the persisted row with the fields that
  differ replaced.
\<close>

definition newFile :: "nat \<Rightarrow> string \<Rightarrow> nat \<Rightarrow> tfile \<Rightarrow> File" where
  "newFile now infoHash i file =
     \<lparr>f_ID = 0, f_MagnetID = infoHash, f_FilePath = tf_path file,
      f_FileName = Base (tf_path file), f_FileSize = tf_length file,
      f_FileIndex = int i, f_MimeType = service_getMimeType (tf_path file),
      f_CreatedAt = now, f_UpdatedAt = 0\<rparr>"

definition needsUpdate :: "File \<Rightarrow> nat \<Rightarrow> tfile \<Rightarrow> bool" where
  "needsUpdate existingFile i file =
     (f_FileSize existingFile \<noteq> tf_length file
      \<or> f_FileIndex existingFile \<noteq> int i
      \<or> f_MimeType existingFile \<noteq> service_getMimeType (tf_path file))"

definition updatedFile :: "nat \<Rightarrow> File \<Rightarrow> nat \<Rightarrow> tfile \<Rightarrow> File" where
  "updatedFile now existingFile i file =
     (let mimeType = service_getMimeType (tf_path file);
          u1 = (if f_FileSize existingFile \<noteq> tf_length file
                then existingFile\<lparr>f_FileSize := tf_length file\<rparr> else existingFile);
          u2 = (if f_FileIndex existingFile \<noteq> int i then u1\<lparr>f_FileIndex := int i\<rparr> else u1);
          u3 = (if f_MimeType existingFile \<noteq> mimeType then u2\<lparr>f_MimeType := mimeType\<rparr> else u2)
      in u3\<lparr>f_UpdatedAt := now\<rparr>)"

text \<open>One turn of the loop \<open>for i, file := range torr.Files()\<close>.\<close>

definition walk_step :: "nat \<Rightarrow> string \<Rightarrow> nat \<times> tfile \<Rightarrow> walk_state \<Rightarrow> walk_state" where
  "walk_step now infoHash x w =
     (case x of (i, file) \<Rightarrow>
        (let filePath = tf_path file
         in if filePath \<in> set (seenFiles w) then w
            else
              (case map_of (existingFileMap w) filePath of
                 Some existingFile \<Rightarrow>
                   w\<lparr>seenFiles := filePath # seenFiles w,
                     filesToUpdate :=
                       (if needsUpdate existingFile i file
                        then filesToUpdate w @ [updatedFile now existingFile i file]
                        else filesToUpdate w),
                     existingFileMap := AList.delete filePath (existingFileMap w)\<rparr>
               | None \<Rightarrow>
                   w\<lparr>seenFiles := filePath # seenFiles w,
                     filesToCreate := filesToCreate w @ [newFile now infoHash i file]\<rparr>)))"

text \<open>
  What one pass stages: the map is filled from the persisted rows (a later row with the
  same path replaces an earlier one), then the walk runs over the reported files with
  their positions.
\<close>

definition stage_sync :: "nat \<Rightarrow> string \<Rightarrow> tfile list \<Rightarrow> File list \<Rightarrow> walk_state" where
  "stage_sync now infoHash reported existingFiles =
     fold (walk_step now infoHash) (enumerate 0 reported)
       \<lparr>existingFileMap = fold (\<lambda>f m. AList.update (f_FilePath f) f m) existingFiles [],
        seenFiles = [], filesToCreate = [], filesToUpdate = []\<rparr>"

text \<open>The rows to delete are the values left in the map.\<close>

definition filesToDelete :: "walk_state \<Rightarrow> nat list" where
  "filesToDelete w = map (\<lambda>(p, f). f_ID f) (existingFileMap w)"

text \<open>The three batches; a failed batch is logged and the next one still runs.\<close>

definition apply_staged :: "nat \<Rightarrow> walk_state \<Rightarrow> database \<Rightarrow> database" where
  "apply_staged now w d =
     (let d1 = (if filesToCreate w \<noteq> []
                then ignore_error (db_create_files now (filesToCreate w) d) d else d);
          d2 = fold (\<lambda>f d'. ignore_error (db_save_file now f d') d') (filesToUpdate w) d1;
          d3 = (if existingFileMap w \<noteq> []
                then ignore_error (db_delete_files_by_id (filesToDelete w) d2) d2 else d2)
      in d3)"

text \<open>
  \<open>handleTorrentReady\<close> with what it staged (the three lists whose lengths its last log
  line prints); nothing is staged when a query fails and the function returns early.
\<close>

definition handleTorrentReady_run ::
  "nat \<Rightarrow> tinfo \<Rightarrow> string \<Rightarrow> TorrentService \<Rightarrow> TorrentService \<times> walk_state option" where
  "handleTorrentReady_run now torr infoHash s =
     (case db_update_magnet infoHash
             (\<lambda>m. m\<lparr>m_Name := ti_name torr, m_TotalSize := ti_length torr,
                     m_FileCount := int (length (ti_files torr)), m_Status := ''ready'',
                     m_UpdatedAt := now\<rparr>)
             (db s) of
        Inl _ \<Rightarrow> (s, None)
      | Inr d \<Rightarrow>
          (case db_find_files d infoHash of
             Inl _ \<Rightarrow> (s\<lparr>db := d\<rparr>, None)
           | Inr existingFiles \<Rightarrow>
               (let w = stage_sync now infoHash (ti_files torr) existingFiles
                in (s\<lparr>db := apply_staged now w d\<rparr>, Some w))))"

definition handleTorrentReady :: "nat \<Rightarrow> tinfo \<Rightarrow> string \<Rightarrow> TorrentService \<Rightarrow> TorrentService" where
  "handleTorrentReady now torr infoHash s = fst (handleTorrentReady_run now torr infoHash s)"

subsection \<open>Acquisition, lookup, shutdown, removal\<close>

text \<open>
  Which case of the \<open>select\<close> fires is the environment's choice: the metadata arrived
  (and is then what \<open>torr.Info()\<close> holds), the 30 seconds passed, or the context was
  cancelled. So is the answer of \<open>client.AddMagnet\<close>: an error text or a handle.
\<close>

datatype wait_outcome = GotInfo tinfo | Timeout | Cancelled

definition addTorrentToClient ::
  "nat \<Rightarrow> string + handle \<Rightarrow> wait_outcome \<Rightarrow> string \<Rightarrow> string \<Rightarrow> TorrentService \<Rightarrow> TorrentService" where
  "addTorrentToClient now added outcome magnetURI infoHash s =
     (case added of
        Inl err \<Rightarrow> updateMagnetStatus now infoHash ''error'' err s
      | Inr torr \<Rightarrow>
          (let s1 = s\<lparr>activeTorrents := AList.update infoHash torr (activeTorrents s)\<rparr>
           in case outcome of
                GotInfo info \<Rightarrow>
                  handleTorrentReady now info infoHash (s1\<lparr>engine := AList.update torr info (engine s1)\<rparr>)
              | Timeout \<Rightarrow> updateMagnetStatus now infoHash ''error'' ''metadata timeout'' s1
              | Cancelled \<Rightarrow> s1))"

definition GetTorrent :: "TorrentService \<Rightarrow> string \<Rightarrow> handle option" where
  "GetTorrent s infoHash = map_of (activeTorrents s) infoHash"

text \<open>A reader is the bytes of its file and a position.\<close>

record Reader =
  rd_data :: string
  rd_pos :: nat

definition GetFileStream ::
  "TorrentService \<Rightarrow> string \<Rightarrow> string \<Rightarrow> int \<Rightarrow> int \<Rightarrow> go_error + (tfile \<times> Reader \<times> task list)" where
  "GetFileStream s infoHash filePath start end =
     (case GetTorrent s infoHash of
        None \<Rightarrow> Inl ErrTorrentNotFound
      | Some torr \<Rightarrow>
          (case map_of (engine s) torr of
             None \<Rightarrow> Inl ErrTorrentNotReady
           | Some info \<Rightarrow>
               (if ti_files info = [] then Inl ErrNoFiles
                else (case find (\<lambda>file. tf_path file = filePath) (ti_files info) of
                        None \<Rightarrow> Inl ErrFileNotFound
                      | Some targetFile \<Rightarrow>
                          Inr (targetFile,
                               \<lparr>rd_data = tf_data targetFile,
                                rd_pos = (if start > 0 then nat start else 0)\<rparr>,
                               [AccessStatsTask infoHash])))))"

definition Stop :: "TorrentService \<Rightarrow> TorrentService" where
  "Stop s =
     s\<lparr>cancelled := True,
       dropped := dropped s @ map snd (activeTorrents s),
       activeTorrents := [],
       client_closed := True\<rparr>"

definition restoreActiveTorrents :: "TorrentService \<Rightarrow> go_error + task list" where
  "restoreActiveTorrents s =
     (if \<not> db_up (db s) then Inl ErrDatabase
      else Inr (map (\<lambda>m. AddTorrentTask (m_MagnetURI m) (m_ID m))
                    (filter (\<lambda>m. m_Status m = ''ready'') (magnets (db s)))))"

text \<open>\<open>RemoveMagnet\<close> of the API handler; the result is the HTTP status.\<close>

definition RemoveMagnet :: "string \<Rightarrow> TorrentService \<Rightarrow> TorrentService \<times> nat" where
  "RemoveMagnet magnetID s =
     (let d1 = ignore_error (db_delete_files_of magnetID (db s)) (db s)
      in case db_delete_magnet magnetID d1 of
           Inl _ \<Rightarrow> (s\<lparr>db := d1\<rparr>, 500)
         | Inr d2 \<Rightarrow> (s\<lparr>db := d2\<rparr>, 200))"

section \<open>The WebDAV handler (package handlers)\<close>

text \<open>
  A request is its method, \<open>r.URL.Path\<close> and the two headers the handler reads;
  \<open>Header.Get\<close> gives the empty string for a header that is absent.
\<close>

record request =
  req_method :: string
  req_path :: string
  req_range :: string
  req_if_none_match :: string

text \<open>
  The response writer: the header map, the status once \<open>WriteHeader\<close> has run (a second
  call changes nothing), the headers as they were sent at that moment, and the body.
\<close>

record response =
  rs_header :: "(string \<times> string) list"
  rs_status :: "nat option"
  rs_sent :: "(string \<times> string) list"
  rs_body :: string

definition new_response :: response where
  "new_response = \<lparr>rs_header = [], rs_status = None, rs_sent = [], rs_body = []\<rparr>"

definition Header_Set :: "string \<Rightarrow> string \<Rightarrow> response \<Rightarrow> response" where
  "Header_Set k v w = w\<lparr>rs_header := AList.update k v (rs_header w)\<rparr>"

definition WriteHeader :: "nat \<Rightarrow> response \<Rightarrow> response" where
  "WriteHeader code w =
     (if rs_status w = None then w\<lparr>rs_status := Some code, rs_sent := rs_header w\<rparr> else w)"

text \<open>\<open>Write\<close> sends status 200 first when no status was sent; writing nothing is no call.\<close>

definition Write :: "string \<Rightarrow> response \<Rightarrow> response" where
  "Write bytes w =
     (if bytes = [] then w
      else (let w' = WriteHeader 200 w in w'\<lparr>rs_body := rs_body w' @ bytes\<rparr>))"

text \<open>\<open>http.Error\<close>\<close>

definition http_Error :: "string \<Rightarrow> nat \<Rightarrow> response \<Rightarrow> response" where
  "http_Error msg code w =
     Write (msg @ [CHR 0x0A])
       (WriteHeader code
          (Header_Set ''X-Content-Type-Options'' ''nosniff''
             (Header_Set ''Content-Type'' ''text/plain; charset=utf-8''
                (w\<lparr>rs_header := AList.delete ''Content-Length'' (rs_header w)\<rparr>))))"

text \<open>When the handler returns, the server sends status 200 if none was sent.\<close>

definition finish :: "response \<Rightarrow> response" where
  "finish w = WriteHeader 200 w"

text \<open>\<open>io.CopyN(w, reader, n)\<close>: at most \<open>n\<close> bytes from the reader's position.\<close>

definition CopyN :: "response \<Rightarrow> Reader \<Rightarrow> int \<Rightarrow> response" where
  "CopyN w reader n = Write (take (nat n) (drop (rd_pos reader) (rd_data reader))) w"

record rangeInfo =
  ri_start :: int
  ri_end :: int

definition parseRangeHeader :: "string \<Rightarrow> go_error + rangeInfo" where
  "parseRangeHeader rangeHeader =
     (if \<not> HasPrefix rangeHeader ''bytes='' then Inl ErrInvalidRangeHeader
      else (let rangeStr = TrimPrefix rangeHeader ''bytes='';
                parts = Split rangeStr CHR ''-''
            in if length parts \<noteq> 2 then Inl ErrInvalidRangeFormat
               else (case ParseInt (parts ! 0) of
                       Inl e \<Rightarrow> Inl e
                     | Inr start \<Rightarrow>
                         (if parts ! 1 \<noteq> [] then
                            (case ParseInt (parts ! 1) of
                               Inl e \<Rightarrow> Inl e
                             | Inr end \<Rightarrow> Inr \<lparr>ri_start = start, ri_end = end\<rparr>)
                          else Inr \<lparr>ri_start = start, ri_end = 0\<rparr>))))"

text \<open>
  \<open>setCacheHeaders\<close>; \<open>expires\<close> is the text of the clock one hour ahead. The call of
  \<open>isVideoFile\<close> comes before any header is set.
\<close>

definition setCacheHeaders ::
  "string \<Rightarrow> response \<Rightarrow> request \<Rightarrow> string \<Rightarrow> int \<Rightarrow> int \<Rightarrow> go_panic + response" where
  "setCacheHeaders expires w r filePath start end =
     (case isVideoFile filePath of
        Inl p \<Rightarrow> Inl p
      | Inr video \<Rightarrow>
          (let cacheControl =
                 (if video then
                    (if start = 0 \<and> end = 0 then ''public, max-age=86400''
                     else ''public, max-age=1800'')
                  else ''public, max-age=3600'');
               w1 = Header_Set ''Cache-Control'' cacheControl w;
               w2 = Header_Set ''Access-Control-Allow-Origin'' ''*'' w1;
               w3 = Header_Set ''Access-Control-Allow-Methods'' ''GET, HEAD, OPTIONS'' w2;
               w4 = Header_Set ''Access-Control-Allow-Headers'' ''Range, Content-Type'' w3;
               w5 = Header_Set ''Expires'' expires w4;
               etag = generateETag filePath start end;
               w6 = Header_Set ''ETag'' etag w5
           in if req_if_none_match r \<noteq> [] \<and> req_if_none_match r = etag
              then Inr (WriteHeader 304 w6) else Inr w6))"

definition handleConditionalRequest ::
  "string \<Rightarrow> response \<Rightarrow> request \<Rightarrow> string \<Rightarrow> int \<Rightarrow> int \<Rightarrow> go_panic + (response \<times> bool)" where
  "handleConditionalRequest expires w r filePath start end =
     (let etag = generateETag filePath start end;
          w1 = Header_Set ''ETag'' etag w
      in case setCacheHeaders expires w1 r filePath start end of
           Inl p \<Rightarrow> Inl p
         | Inr w2 \<Rightarrow>
             (if req_if_none_match r \<noteq> [] \<and> req_if_none_match r = etag
              then Inr (WriteHeader 304 w2, True) else Inr (w2, False)))"

text \<open>
  What a request ends in: the directory listing is another handler
  (\<open>serveDirectoryListing\<close>, taken with the identifier it is called with), a response, or
  a panic. The tasks are the goroutines started on the way.
\<close>

datatype outcome = Listing string | Responded response | Panicked go_panic

text \<open>
  The first part of \<open>handleGet\<close>, up to the call of \<open>GetFileStream\<close>: what the request
  addresses. A range header that does not parse leaves \<open>start\<close> and \<open>end\<close> at zero.
\<close>

datatype target = ToListing string | BadEncoding | ToFile string string int int

definition request_target :: "request \<Rightarrow> target" where
  "request_target r =
     (let path = TrimPrefix (req_path r) ''/webdav/'';
          parts = Split path CHR ''/''
      in if length parts < 2 then ToListing (parts ! 0)
         else
           (let magnetID = parts ! 0;
                encodedFilePath = Join (tl parts) ''/''
            in case PathUnescape encodedFilePath of
                 Inl _ \<Rightarrow> BadEncoding
               | Inr filePath \<Rightarrow>
                   (let (start, end) =
                          (if req_range r \<noteq> [] then
                             (case parseRangeHeader (req_range r) of
                                Inr parsed \<Rightarrow> (ri_start parsed, ri_end parsed)
                              | Inl _ \<Rightarrow> (0, 0))
                           else (0, 0))
                    in ToFile magnetID filePath start end)))"

text \<open>The second part of \<open>handleGet\<close>, once the stream is open.\<close>

definition serve_file ::
  "string \<Rightarrow> request \<Rightarrow> string \<Rightarrow> int \<Rightarrow> int \<Rightarrow> tfile \<Rightarrow> Reader \<Rightarrow> outcome" where
  "serve_file expires r filePath start end file reader =
     (case handleConditionalRequest expires new_response r filePath start end of
        Inl p \<Rightarrow> Panicked p
      | Inr (w1, True) \<Rightarrow> Responded (finish w1)
      | Inr (w1, False) \<Rightarrow>
          (case getMimeType filePath of
             Inl p \<Rightarrow> Panicked p
           | Inr mimeType \<Rightarrow>
               (let w2 = Header_Set ''Accept-Ranges'' ''bytes''
                           (Header_Set ''Content-Type'' mimeType w1);
                    fileSize = tf_length file;
                    end' = (if end = 0 \<or> end \<ge> fileSize then fileSize - 1 else end);
                    w3 = (if start > 0 \<or> req_range r \<noteq> [] then
                            WriteHeader 206
                              (Header_Set ''Content-Range''
                                 (''bytes '' @ FormatInt start @ ''-'' @
                                  FormatInt end' @ ''/'' @ FormatInt fileSize)
                                 (Header_Set ''Content-Length''
                                    (FormatInt (end' - start + 1)) w2))
                          else Header_Set ''Content-Length'' (FormatInt fileSize) w2);
                    w4 = (if req_method r = ''GET''
                          then CopyN w3 reader (end' - start + 1) else w3)
                in Responded (finish w4))))"

definition handleGet ::
  "string \<Rightarrow> TorrentService \<Rightarrow> request \<Rightarrow> outcome \<times> task list" where
  "handleGet expires s r =
     (case request_target r of
        ToListing magnetID \<Rightarrow> (Listing magnetID, [])
      | BadEncoding \<Rightarrow>
          (Responded (finish (http_Error ''Invalid file path encoding'' 400 new_response)), [])
      | ToFile magnetID filePath start end \<Rightarrow>
          (case GetFileStream s magnetID filePath start end of
             Inl _ \<Rightarrow>
               (Responded (finish (http_Error ''File not found or not ready'' 404 new_response)), [])
           | Inr (file, reader, tasks) \<Rightarrow>
               (serve_file expires r filePath start end file reader, tasks)))"

text \<open>\<open>ServeHTTP\<close>: the method decides; PROPFIND answers with a fixed XML document.\<close>

datatype served = Get "outcome \<times> task list" | Propfind string | MethodNotAllowed response

definition ServeHTTP :: "string \<Rightarrow> TorrentService \<Rightarrow> request \<Rightarrow> served" where
  "ServeHTTP expires s r =
     (if req_method r = ''GET'' \<or> req_method r = ''HEAD'' then Get (handleGet expires s r)
      else if req_method r = ''PROPFIND'' then Propfind (TrimPrefix (req_path r) ''/webdav/'')
      else MethodNotAllowed (finish (http_Error ''Method not allowed'' 405 new_response)))"

section \<open>Concrete states for the examples\<close>

text \<open>
  A session \<open>abc\<close> whose metadata reports a file \<open>movie.mp4\<close> of 100 bytes and a file
  \<open>README\<close> of 3 bytes, and GET requests for them.
\<close>

definition example_file :: tfile where
  "example_file =
     \<lparr>tf_path = ''movie.mp4'', tf_length = 100, tf_data = replicate 100 CHR ''x''\<rparr>"

definition example_readme :: tfile where
  "example_readme = \<lparr>tf_path = ''README'', tf_length = 3, tf_data = ''abc''\<rparr>"

definition example_info :: tinfo where
  "example_info =
     \<lparr>ti_name = ''movie'', ti_length = 103, ti_files = [example_file, example_readme]\<rparr>"

definition example_magnet :: Magnet where
  "example_magnet =
     \<lparr>m_ID = ''abc'', m_MagnetURI = ''magnet:?xt=urn:btih:ABC&dn=movie'', m_Name = [],
      m_TotalSize = 0, m_FileCount = 0, m_Status = ''pending'', m_CreatedAt = 1,
      m_UpdatedAt = 1, m_LastAccessed = 1, m_AccessCount = 0\<rparr>"

definition example_pending :: TorrentService where
  "example_pending =
     \<lparr>db = \<lparr>db_up = True, magnets = [example_magnet], files = [], next_file_id = 1\<rparr>,
      activeTorrents = [], engine = [],
      dropped = [], cancelled = False, client_closed = False\<rparr>"


definition example_service :: TorrentService where
  "example_service =
     example_pending\<lparr>activeTorrents := [(''abc'', 7)], engine := [(7, example_info)]\<rparr>"

definition example_request :: "string \<Rightarrow> string \<Rightarrow> string \<Rightarrow> request" where
  "example_request name rng inm =
     \<lparr>req_method = ''GET'', req_path = ''/webdav/abc/'' @ name, req_range = rng,
      req_if_none_match = inm\<rparr>"





section \<open>Properties of the cache validator and of the range handler\<close>

lemma hex_digit_inj:
  assumes "a < 16" "b < 16" "''0123456789abcdef'' ! a = ''0123456789abcdef'' ! b"
  shows "a = b"
proof -
  have d: "distinct ''0123456789abcdef''" by simp
  have "a < length ''0123456789abcdef''" "b < length ''0123456789abcdef''"
    using assms by simp_all
  with d assms(3) show ?thesis by (simp only: nth_eq_iff_index_eq)
qed

lemma hex_nat_length:
  "length (hex_nat n) = (if n < 16 then 1 else Suc (length (hex_nat (n div 16))))"
  by (subst hex_nat.simps) simp

lemma hex_nat_nonempty: "hex_nat n \<noteq> []"
  by (subst hex_nat.simps) simp

lemma hex_nat_one: "length (hex_nat n) = Suc 0 \<longleftrightarrow> n < 16"
  using hex_nat_nonempty[of "n div 16"] by (subst hex_nat_length) simp

lemma hex_nat_inj: "hex_nat m = hex_nat n \<Longrightarrow> m = n"
proof (induction m arbitrary: n rule: hex_nat.induct)
  case (1 m)
  show ?case
  proof (cases "m < 16")
    case True
    then have "length (hex_nat m) = Suc 0" by (simp add: hex_nat_one)
    with "1.prems" have "length (hex_nat n) = Suc 0" by simp
    then have "n < 16" by (simp add: hex_nat_one)
    with True "1.prems" show ?thesis
      by (subst (asm) hex_nat.simps, subst (asm) (2) hex_nat.simps) (simp add: hex_digit_inj)
  next
    case False
    then have "length (hex_nat m) \<noteq> Suc 0" by (simp add: hex_nat_one)
    with "1.prems" have "length (hex_nat n) \<noteq> Suc 0" by simp
    then have n16: "\<not> n < 16" by (simp add: hex_nat_one)
    from "1.prems" False n16 have
      "hex_nat (m div 16) @ [''0123456789abcdef'' ! (m mod 16)] =
       hex_nat (n div 16) @ [''0123456789abcdef'' ! (n mod 16)]"
      by (subst (asm) hex_nat.simps, subst (asm) (2) hex_nat.simps) simp
    then have a: "hex_nat (m div 16) = hex_nat (n div 16)"
      and b: "''0123456789abcdef'' ! (m mod 16) = ''0123456789abcdef'' ! (n mod 16)"
      by simp_all
    from "1.IH"[OF False a] have "m div 16 = n div 16" .
    moreover from b have "m mod 16 = n mod 16" by (intro hex_digit_inj) simp_all
    ultimately show ?thesis by (metis div_mult_mod_eq)
  qed
qed

lemma generateETag_nonempty: "generateETag p s e \<noteq> []"
  by (simp add: generateETag_def)

lemma takeWhile_shorter:
  "x \<in> set xs \<Longrightarrow> length (takeWhile (\<lambda>y. y \<noteq> x) xs) < length xs"
  by (induction xs) auto

lemma LastIndex_bounds:
  assumes "CHR ''.'' \<in> set p"
  shows "0 \<le> LastIndex p CHR ''.'' \<and> LastIndex p CHR ''.'' < int (length p)"
  using assms takeWhile_shorter[of "CHR ''.''" "rev p"] by (simp add: LastIndex_def)

lemma isVideoFile_total: "CHR ''.'' \<in> set p \<Longrightarrow> \<exists>b. isVideoFile p = Inr b"
  using LastIndex_bounds[of p] by (simp add: isVideoFile_def slice_from_def)

lemma getMimeType_total: "CHR ''.'' \<in> set p \<Longrightarrow> \<exists>m. getMimeType p = Inr m"
  using LastIndex_bounds[of p]
  by (simp add: getMimeType_def slice_from_def split: option.split)

lemma no_dot_panics:
  assumes "CHR ''.'' \<notin> set filePath"
  shows "getMimeType filePath = Inl SliceBoundsOutOfRange"
    and "isVideoFile filePath = Inl SliceBoundsOutOfRange"
  using assms by (simp_all add: getMimeType_def isVideoFile_def LastIndex_def slice_from_def)

lemma serve_file_not_modified:
  assumes "CHR ''.'' \<in> set filePath" "req_if_none_match r = generateETag filePath start end"
  shows "\<exists>w. serve_file expires r filePath start end file reader = Responded w
             \<and> rs_status w = Some 304 \<and> rs_body w = []"
proof -
  from assms(1) obtain b where b: "isVideoFile filePath = Inr b"
    using isVideoFile_total by blast
  show ?thesis
    using assms(2) b generateETag_nonempty[of filePath start "end"]
    by (simp add: serve_file_def handleConditionalRequest_def setCacheHeaders_def Let_def
        WriteHeader_def Header_Set_def finish_def new_response_def)
qed

lemma example_target:
  "request_target (example_request ''movie.mp4'' ''bytes=10-19'' inm) =
     ToFile ''abc'' ''movie.mp4'' 10 19"
  by (simp add: request_target_def example_request_def TrimPrefix_def HasPrefix_def
      parseRangeHeader_def ParseInt_def ParseUint_def digit_val_def Let_def)

lemma example_target_readme:
  "request_target (example_request ''README'' [] []) = ToFile ''abc'' ''README'' 0 0"
  by (simp add: request_target_def example_request_def TrimPrefix_def HasPrefix_def Let_def)

lemma example_stream:
  "GetFileStream example_service ''abc'' ''movie.mp4'' 10 19 =
     Inr (example_file, \<lparr>rd_data = tf_data example_file, rd_pos = 10\<rparr>, [AccessStatsTask ''abc''])"
  by (simp add: GetFileStream_def GetTorrent_def example_service_def example_pending_def
      example_info_def example_file_def example_readme_def)

lemma example_stream_readme:
  "GetFileStream example_service ''abc'' ''README'' 0 0 =
     Inr (example_readme, \<lparr>rd_data = tf_data example_readme, rd_pos = 0\<rparr>,
          [AccessStatsTask ''abc''])"
  by (simp add: GetFileStream_def GetTorrent_def example_service_def example_pending_def
      example_info_def example_file_def example_readme_def)

text \<open>
  C1, at the input where the code and the claim part: a GET for the 100-byte file with
  \<open>Range: bytes=0-0\<close>. The parsed end 0 is taken for "no end", so the answer is partial
  content with \<open>Content-Range: bytes 0-99/100\<close>, \<open>Content-Length: 100\<close> and all 100 bytes.
\<close>

theorem range_0_0_serves_whole_file:
  "(case handleGet ''E'' example_service (example_request ''movie.mp4'' ''bytes=0-0'' []) of
      (Responded w, _) \<Rightarrow>
        rs_status w = Some 206
        \<and> map_of (rs_sent w) ''Content-Range'' = Some ''bytes 0-99/100''
        \<and> map_of (rs_sent w) ''Content-Length'' = Some ''100''
        \<and> length (rs_body w) = 100
    | _ \<Rightarrow> False)"
  by code_simp

text \<open>
  C3, as stated, fails: \<open>a.mp4\<close> and \<open>b.mp4\<close> are distinct paths and get the same
  validator for the range (0, 0).
\<close>

theorem etag_collision_counterexample:
  "''a.mp4'' \<noteq> ''b.mp4'' \<and> generateETag ''a.mp4'' 0 0 = generateETag ''b.mp4'' 0 0"
  by code_simp

text \<open>
  C3, amended: the validator is the length of the key \<open>path-start-end\<close> in hexadecimal,
  so for one range two paths get the same validator exactly when they have the same
  number of bytes.
\<close>

theorem generateETag_eq_iff_length:
  "generateETag p1 s e = generateETag p2 s e \<longleftrightarrow> length p1 = length p2"
  by (auto simp: generateETag_def etag_key_def dest: hex_nat_inj)

text \<open>
  A request that resolves to a file whose path has a dot and that carries the validator
  of its triple in \<open>If-None-Match\<close> is answered with status 304 and an empty body.
\<close>

lemma dotted_path_not_modified:
  assumes "request_target r = ToFile magnetID filePath start end"
    and "GetFileStream s magnetID filePath start end = Inr (file, reader, tasks)"
    and "CHR ''.'' \<in> set filePath"
    and "req_if_none_match r = generateETag filePath start end"
  shows "\<exists>w. handleGet expires s r = (Responded w, tasks)
             \<and> rs_status w = Some 304 \<and> rs_body w = []"
proof -
  from serve_file_not_modified[OF assms(3,4)] obtain w where
    "serve_file expires r filePath start end file reader = Responded w"
    "rs_status w = Some 304" "rs_body w = []"
    by blast
  with assms(1,2) show ?thesis by (simp add: handleGet_def)
qed

lemma dotted_path_not_modified_example:
  "\<exists>w. handleGet ''E'' example_service
          (example_request ''movie.mp4'' ''bytes=10-19'' (generateETag ''movie.mp4'' 10 19)) =
            (Responded w, [AccessStatsTask ''abc''])
        \<and> rs_status w = Some 304 \<and> rs_body w = []"
proof -
  have dot: "CHR ''.'' \<in> set ''movie.mp4''" by simp
  have inm: "req_if_none_match
               (example_request ''movie.mp4'' ''bytes=10-19'' (generateETag ''movie.mp4'' 10 19)) =
             generateETag ''movie.mp4'' 10 19"
    by (simp add: example_request_def)
  from dotted_path_not_modified[OF example_target example_stream dot inm]
  show ?thesis by blast
qed

text \<open>
  C8, at the input where the code and the claim part: a GET for the file \<open>README\<close> of
  the session, with no range, whose \<open>If-None-Match\<close> is the validator of the triple
  (README, 0, 0), which is \<open>"a"\<close>. \<open>handleConditionalRequest\<close> calls \<open>setCacheHeaders\<close>
  before it compares, \<open>setCacheHeaders\<close> calls \<open>isVideoFile\<close>, and the request ends in the
  panic of the slice expression: no status 304 is sent.
\<close>

theorem matching_validator_dotless_panics:
  "generateETag ''README'' 0 0 = [CHR 0x22, CHR ''a'', CHR 0x22]
   \<and> request_target (example_request ''README'' [] (generateETag ''README'' 0 0)) =
       ToFile ''abc'' ''README'' 0 0
   \<and> req_if_none_match (example_request ''README'' [] (generateETag ''README'' 0 0)) =
       generateETag ''README'' 0 0
   \<and> handleGet ''E'' example_service
         (example_request ''README'' [] (generateETag ''README'' 0 0)) =
       (Panicked SliceBoundsOutOfRange, [AccessStatsTask ''abc''])"
  by code_simp

text \<open>
  C9: for a path with no dot, \<open>strings.LastIndex\<close> is -1 and the slice expression in
  \<open>getMimeType\<close> and in \<open>isVideoFile\<close> panics; a GET that resolves to such a file ends in
  that panic, with no response.
\<close>

theorem dotless_path_panics:
  assumes "CHR ''.'' \<notin> set filePath"
  shows "LastIndex filePath CHR ''.'' = - 1
         \<and> getMimeType filePath = Inl SliceBoundsOutOfRange
         \<and> isVideoFile filePath = Inl SliceBoundsOutOfRange
         \<and> (request_target r = ToFile magnetID filePath start end \<longrightarrow>
              GetFileStream s magnetID filePath start end = Inr (file, reader, tasks) \<longrightarrow>
              handleGet expires s r = (Panicked SliceBoundsOutOfRange, tasks))"
  using assms no_dot_panics[OF assms]
  by (simp add: LastIndex_def handleGet_def serve_file_def handleConditionalRequest_def
      setCacheHeaders_def)

theorem dotless_path_panics_witness:
  "CHR ''.'' \<notin> set ''README''
   \<and> getMimeType ''README'' = Inl SliceBoundsOutOfRange
   \<and> isVideoFile ''README'' = Inl SliceBoundsOutOfRange
   \<and> handleGet ''E'' example_service (example_request ''README'' [] []) =
       (Panicked SliceBoundsOutOfRange, [AccessStatsTask ''abc''])"
proof -
  have h: "CHR ''.'' \<notin> set ''README''" by simp
  from dotless_path_panics[OF h, of "example_request ''README'' [] []" "''abc''" 0 0
      example_service example_readme _ "[AccessStatsTask ''abc'']" "''E''"]
    example_target_readme example_stream_readme h
  show ?thesis by simp
qed

section \<open>Properties of submission, acquisition and removal\<close>



































lemma addTorrentToClient_Timeout:
  "addTorrentToClient now (Inr torr) Timeout magnetURI infoHash s =
     updateMagnetStatus now infoHash ''error'' ''metadata timeout''
       (s\<lparr>activeTorrents := AList.update infoHash torr (activeTorrents s)\<rparr>)"
  by (simp add: addTorrentToClient_def Let_def)

lemma updateMagnetStatus_frame:
  "activeTorrents (updateMagnetStatus now infoHash status msg s) = activeTorrents s"
  "engine (updateMagnetStatus now infoHash status msg s) = engine s"
  "files (db (updateMagnetStatus now infoHash status msg s)) = files (db s)"
  "map m_ID (magnets (db (updateMagnetStatus now infoHash status msg s))) = map m_ID (magnets (db s))"
  by (simp_all add: updateMagnetStatus_def db_update_magnet_def ignore_error_def comp_def)

lemma updateMagnetStatus_marks:
  assumes "db_up (db s)" "msg \<noteq> []"
    and "m \<in> set (magnets (db (updateMagnetStatus now infoHash status msg s)))"
    and "m_ID m = infoHash"
  shows "m_Status m = status \<and> m_Name m = msg"
proof -
  let ?f = "\<lambda>m. if m_ID m = infoHash
                 then m\<lparr>m_Status := status, m_UpdatedAt := now, m_Name := msg\<rparr> else m"
  from assms(1,2) have "magnets (db (updateMagnetStatus now infoHash status msg s)) =
      map ?f (magnets (db s))"
    by (simp add: updateMagnetStatus_def db_update_magnet_def ignore_error_def)
  with assms(3) have "m \<in> ?f ` set (magnets (db s))" by simp
  then obtain x where x: "m = ?f x" by (rule imageE)
  show ?thesis
  proof (cases "m_ID x = infoHash")
    case True
    with x show ?thesis by simp
  next
    case False
    with x assms(4) show ?thesis by simp
  qed
qed

text \<open>
  C2, as stated, fails: the session is put into the map before the wait starts, and after
  the timeout \<open>GetTorrent\<close> still returns it.
\<close>

theorem timeout_keeps_session_counterexample:
  "GetTorrent
     (addTorrentToClient 5 (Inr 7) Timeout ''magnet:?xt=urn:btih:ABC&dn=movie'' ''abc''
        example_pending) ''abc'' = Some 7"
  by code_simp

text \<open>
  C2, amended: on the timeout every record with the identifier gets status \<open>error\<close>
  and the name \<open>metadata timeout\<close>, the identifiers of the records and the file rows
  stay as they are, and the session registered before the wait stays in the map, so
  \<open>GetTorrent\<close> returns it.
\<close>

theorem timeout_marks_error_keeps_session:
  "(let s' = addTorrentToClient now (Inr torr) Timeout magnetURI infoHash s
    in (db_up (db s) \<longrightarrow>
          (\<forall>m\<in>set (magnets (db s')). m_ID m = infoHash \<longrightarrow>
             m_Status m = ''error'' \<and> m_Name m = ''metadata timeout''))
       \<and> map m_ID (magnets (db s')) = map m_ID (magnets (db s))
       \<and> files (db s') = files (db s)
       \<and> activeTorrents s' = AList.update infoHash torr (activeTorrents s)
       \<and> GetTorrent s' infoHash = Some torr)"
proof -
  let ?s1 = "s\<lparr>activeTorrents := AList.update infoHash torr (activeTorrents s)\<rparr>"
  let ?s' = "updateMagnetStatus now infoHash ''error'' ''metadata timeout'' ?s1"
  have a: "db_up (db s) \<longrightarrow>
          (\<forall>m\<in>set (magnets (db ?s')). m_ID m = infoHash \<longrightarrow>
             m_Status m = ''error'' \<and> m_Name m = ''metadata timeout'')"
    using updateMagnetStatus_marks[of ?s1 "''metadata timeout''" _ now infoHash "''error''"]
    by simp
  have b: "map m_ID (magnets (db ?s')) = map m_ID (magnets (db s))"
    by (simp add: updateMagnetStatus_frame)
  have c: "files (db ?s') = files (db s)" by (simp add: updateMagnetStatus_frame)
  have d: "activeTorrents ?s' = AList.update infoHash torr (activeTorrents s)"
    by (simp add: updateMagnetStatus_frame)
  then have e: "GetTorrent ?s' infoHash = Some torr"
    by (simp add: GetTorrent_def update_conv')
  from a b c d e show ?thesis
    unfolding addTorrentToClient_Timeout Let_def by blast
qed

theorem timeout_marks_error_keeps_session_witness:
  "(let s' = addTorrentToClient 5 (Inr 7) Timeout ''magnet:?xt=urn:btih:ABC&dn=movie'' ''abc''
               example_pending
    in db_up (db example_pending)
       \<and> magnets (db s') =
           [example_magnet\<lparr>m_Status := ''error'', m_UpdatedAt := 5, m_Name := ''metadata timeout''\<rparr>]
       \<and> GetTorrent s' ''abc'' = Some 7)"
proof -
  have a: "db_up (db example_pending)" by (simp add: example_pending_def)
  have b: "magnets (db (addTorrentToClient 5 (Inr 7) Timeout ''magnet:?xt=urn:btih:ABC&dn=movie'' ''abc''
               example_pending)) =
           [example_magnet\<lparr>m_Status := ''error'', m_UpdatedAt := 5, m_Name := ''metadata timeout''\<rparr>]"
    by code_simp
  from timeout_marks_error_keeps_session[of 5 7 "''magnet:?xt=urn:btih:ABC&dn=movie''" "''abc''" example_pending]
  have "GetTorrent (addTorrentToClient 5 (Inr 7) Timeout ''magnet:?xt=urn:btih:ABC&dn=movie'' ''abc''
               example_pending) ''abc'' = Some 7"
    unfolding Let_def by blast
  with a b show ?thesis unfolding Let_def by blast
qed

lemma RemoveMagnet_frame:
  "activeTorrents (fst (RemoveMagnet magnetID s)) = activeTorrents s"
  "engine (fst (RemoveMagnet magnetID s)) = engine s"
  by (simp_all add: RemoveMagnet_def Let_def split: sum.splits)

lemma GetFileStream_frame:
  assumes "activeTorrents s' = activeTorrents s" "engine s' = engine s"
  shows "GetFileStream s' infoHash filePath start end = GetFileStream s infoHash filePath start end"
  unfolding GetFileStream_def GetTorrent_def assms by (rule refl)

lemma RemoveMagnet_db:
  assumes "db_up (db s)"
  shows "snd (RemoveMagnet magnetID s) = 200"
    and "\<forall>m\<in>set (magnets (db (fst (RemoveMagnet magnetID s)))). m_ID m \<noteq> magnetID"
    and "\<forall>f\<in>set (files (db (fst (RemoveMagnet magnetID s)))). f_MagnetID f \<noteq> magnetID"
  using assms
  by (simp_all add: RemoveMagnet_def Let_def db_delete_magnet_def db_delete_files_of_def
      ignore_error_def)

text \<open>
  C10: \<open>RemoveMagnet\<close> deletes the record and its file rows and leaves the session map
  and the engine as they are, so \<open>GetTorrent\<close> and \<open>GetFileStream\<close> answer as before;
  after \<open>Stop\<close> no session is left.
\<close>

theorem RemoveMagnet_keeps_sessions:
  "(let s' = fst (RemoveMagnet magnetID s)
    in activeTorrents s' = activeTorrents s
       \<and> engine s' = engine s
       \<and> GetTorrent s' infoHash = GetTorrent s infoHash
       \<and> GetFileStream s' infoHash filePath start end = GetFileStream s infoHash filePath start end
       \<and> (db_up (db s) \<longrightarrow>
             snd (RemoveMagnet magnetID s) = 200
             \<and> (\<forall>m\<in>set (magnets (db s')). m_ID m \<noteq> magnetID)
             \<and> (\<forall>f\<in>set (files (db s')). f_MagnetID f \<noteq> magnetID)))
   \<and> GetTorrent (Stop s) infoHash = None"
  using RemoveMagnet_frame[of magnetID s] RemoveMagnet_db[of s magnetID]
    GetFileStream_frame[OF RemoveMagnet_frame, of magnetID s infoHash filePath start "end"]
  by (simp add: Let_def GetTorrent_def Stop_def)

theorem RemoveMagnet_keeps_sessions_witness:
  "db_up (db example_service)
   \<and> RemoveMagnet ''abc'' example_service =
       (example_service\<lparr>db := (db example_service)\<lparr>magnets := []\<rparr>\<rparr>, 200)
   \<and> GetTorrent (fst (RemoveMagnet ''abc'' example_service)) ''abc'' = Some 7
   \<and> GetFileStream (fst (RemoveMagnet ''abc'' example_service)) ''abc'' ''movie.mp4'' 10 19 =
       Inr (example_file, \<lparr>rd_data = tf_data example_file, rd_pos = 10\<rparr>,
            [AccessStatsTask ''abc''])
   \<and> GetTorrent (Stop example_service) ''abc'' = None"
proof -
  have a: "db_up (db example_service)" by code_simp
  have b: "RemoveMagnet ''abc'' example_service =
       (example_service\<lparr>db := (db example_service)\<lparr>magnets := []\<rparr>\<rparr>, 200)" by code_simp
  have c: "GetTorrent example_service ''abc'' = Some 7" by code_simp
  from RemoveMagnet_keeps_sessions[of "''abc''" example_service "''abc''" "''movie.mp4''" 10 19]
    a b c example_stream
  show ?thesis by (simp add: Let_def)
qed

end
